theory Spec2Isabelle
  imports Complex_Main "HOL-Library.Char_ord" "HOL-Library.List_Lexorder"
begin

section \<open>Python strings and POSIX paths\<close>

text \<open>
  Scalene runs on Unix-like systems only (the module exits on win32), so \<open>os.path\<close> is
  \<open>posixpath\<close>. The string operations and path functions that \<open>should_trace\<close> and
  \<open>__init__\<close> call are written out here as the standard library computes them.
\<close>

datatype error = IndexError | AttributeError | ZeroDivisionError | ItimerError | FileNotFoundError

text \<open>\<open>s.startswith(p)\<close>\<close>

fun startswith :: "string \<Rightarrow> string \<Rightarrow> bool" where
  "startswith s [] = True"
| "startswith [] (p # ps) = False"
| "startswith (c # cs) (p # ps) = (c = p \<and> startswith cs ps)"

text \<open>\<open>p in s\<close> on strings: \<open>p\<close> occurs in \<open>s\<close> as a contiguous substring.\<close>

fun str_contains :: "string \<Rightarrow> string \<Rightarrow> bool" where
  "str_contains p [] = (p = [])"
| "str_contains p (c # cs) = (startswith (c # cs) p \<or> str_contains p cs)"

text \<open>\<open>s.split(sep)\<close> for a one-character separator.\<close>

fun split_sep :: "char \<Rightarrow> string \<Rightarrow> string list" where
  "split_sep sep [] = [[]]"
| "split_sep sep (c # cs) =
     (if c = sep then [] # split_sep sep cs
      else (case split_sep sep cs of
              [] \<Rightarrow> [[c]]
            | w # ws \<Rightarrow> (c # w) # ws))"

text \<open>\<open>sep.join(comps)\<close>\<close>

fun str_join :: "string \<Rightarrow> string list \<Rightarrow> string" where
  "str_join sep [] = []"
| "str_join sep [w] = w"
| "str_join sep (w # v # ws) = w @ sep @ str_join sep (v # ws)"

text \<open>\<open>s.rstrip(c)\<close> and \<open>s.rfind(c)\<close> for a one-character argument.\<close>

definition rstrip :: "char \<Rightarrow> string \<Rightarrow> string" where
  "rstrip c s = rev (dropWhile (\<lambda>x. x = c) (rev s))"

definition rfind :: "char \<Rightarrow> string \<Rightarrow> int" where
  "rfind c s =
     (if c \<in> set s then int (length s) - 1 - int (length (takeWhile (\<lambda>x. x \<noteq> c) (rev s)))
      else - 1)"

text \<open>\<open>posixpath.isabs\<close>, \<open>posixpath.join\<close> (two arguments), \<open>posixpath.normpath\<close>.\<close>

definition isabs :: "string \<Rightarrow> bool" where
  "isabs p = startswith p ''/''"

definition path_join :: "string \<Rightarrow> string \<Rightarrow> string" where
  "path_join a b =
     (if startswith b ''/'' then b
      else if a = [] \<or> last a = CHR ''/'' then a @ b
      else a @ ''/'' @ b)"

text \<open>One iteration of the component loop of \<open>normpath\<close>.\<close>

definition norm_step :: "nat \<Rightarrow> string list \<Rightarrow> string \<Rightarrow> string list" where
  "norm_step initial_slashes new_comps component =
     (if component = [] \<or> component = ''.'' then new_comps
      else if component \<noteq> ''..'' \<or> (initial_slashes = 0 \<and> new_comps = [])
                \<or> (new_comps \<noteq> [] \<and> last new_comps = ''..'')
        then new_comps @ [component]
      else if new_comps \<noteq> [] then butlast new_comps
      else new_comps)"

definition normpath :: "string \<Rightarrow> string" where
  "normpath path =
     (if path = [] then ''.''
      else
        let initial_slashes =
              (if startswith path ''/''
               then (if startswith path ''//'' \<and> \<not> startswith path ''///'' then 2 else 1)
               else (0::nat));
            comps = split_sep CHR ''/'' path;
            new_comps = foldl (norm_step initial_slashes) [] comps;
            joined = replicate initial_slashes CHR ''/'' @ str_join ''/'' new_comps
        in if joined = [] then ''.'' else joined)"

text \<open>\<open>os.path.abspath\<close>; the working directory \<open>os.getcwd()\<close> is the first argument.\<close>

definition abspath :: "string \<Rightarrow> string \<Rightarrow> string" where
  "abspath cwd path = normpath (if isabs path then path else path_join cwd path)"

text \<open>\<open>os.path.dirname\<close>\<close>

definition dirname :: "string \<Rightarrow> string" where
  "dirname p =
     (let i = rfind CHR ''/'' p + 1;
          head = take (nat i) p
      in if head \<noteq> [] \<and> head \<noteq> replicate (length head) CHR ''/''
         then rstrip CHR ''/'' head else head)"

section \<open>The location filter\<close>

text \<open>
  The body of \<open>Scalene.should_trace\<close>. \<open>filename[0]\<close> raises \<open>IndexError\<close> on the empty
  string. \<open>Scalene.program_path\<close> and the working directory are read from the process
  state and are arguments here.
\<close>

definition should_trace_body :: "string \<Rightarrow> string \<Rightarrow> string \<Rightarrow> error + bool" where
  "should_trace_body program_path cwd filename =
     (case filename of
        [] \<Rightarrow> Inl IndexError
      | c # _ \<Rightarrow>
          if c = CHR ''<'' then Inr False
          else if str_contains ''scalene.py'' filename then Inr False
          else Inr (str_contains program_path (abspath cwd filename)))"

section \<open>Profiler state\<close>

text \<open>
  A sample table is a \<open>defaultdict\<close> of \<open>defaultdict(int)\<close>: file name, then line number,
  then accumulator. Python dictionaries keep insertion order and have unique keys;
  \<open>d[k] += v\<close> on a \<open>defaultdict(int)\<close> updates the entry in place, or appends a new
  entry holding \<open>0 + v\<close>.
\<close>

type_synonym 'v table = "(string \<times> (int \<times> 'v) list) list"

fun upd_add :: "'k \<Rightarrow> 'v::{zero,plus} \<Rightarrow> ('k \<times> 'v) list \<Rightarrow> ('k \<times> 'v) list" where
  "upd_add k v [] = [(k, 0 + v)]"
| "upd_add k v ((k', w) # d) =
     (if k' = k then (k', w + v) # d else (k', w) # upd_add k v d)"

text \<open>\<open>table[fname][lineno] += v\<close>\<close>

fun table_add :: "string \<Rightarrow> int \<Rightarrow> 'v::{zero,plus} \<Rightarrow> 'v table \<Rightarrow> 'v table" where
  "table_add fname lineno v [] = [(fname, upd_add lineno v [])]"
| "table_add fname lineno v ((f, d) # t) =
     (if f = fname then (f, upd_add lineno v d) # t else (f, d) # table_add fname lineno v t)"

text \<open>Reading \<open>table[fname][lineno]\<close> (a missing key reads as 0) and \<open>table[fname].values()\<close>.\<close>

definition table_get :: "'v::zero table \<Rightarrow> string \<Rightarrow> int \<Rightarrow> 'v" where
  "table_get t fname lineno =
     (case map_of t fname of
        None \<Rightarrow> 0
      | Some d \<Rightarrow> (case map_of d lineno of None \<Rightarrow> 0 | Some v \<Rightarrow> v))"

definition file_values :: "'v table \<Rightarrow> string \<Rightarrow> 'v list" where
  "file_values t fname = (case map_of t fname of None \<Rightarrow> [] | Some d \<Rightarrow> map snd d)"

text \<open>
  The frame object handed to a signal handler: \<open>frame.f_code.co_filename\<close>,
  \<open>frame.f_lineno\<close> and \<open>frame.f_back\<close> (\<open>None\<close> for the outermost frame).
\<close>

datatype frame = Frame (co_filename: string) (f_lineno: int) (f_back: "frame option")

datatype handler = CpuHandler | MallocHandler | FreeHandler

datatype disposition = SIG_DFL | SIG_IGN | Handler handler

text \<open>Signal numbers and the timer identifier, as \<open>signal\<close> defines them on Linux and Mac OS X.\<close>

definition SIGVTALRM :: nat where "SIGVTALRM = 26"
definition SIGPROF :: nat where "SIGPROF = 27"
definition SIGXCPU :: nat where "SIGXCPU = 24"
definition ITIMER_VIRTUAL :: nat where "ITIMER_VIRTUAL = 1"

definition cpu_timer_signal :: nat where "cpu_timer_signal = ITIMER_VIRTUAL"
definition cpu_signal :: nat where "cpu_signal = SIGVTALRM"
definition malloc_signal :: nat where "malloc_signal = SIGPROF"
definition free_signal :: nat where "free_signal = SIGXCPU"

text \<open>
  The class attributes of \<open>Scalene\<close>, together with the parts of the process state the
  profiler reads and writes: the \<open>lru_cache\<close> of \<open>should_trace\<close> (most recently used entry
  first), the working directory, the signal dispositions and the virtual interval timer
  (seconds until the next expiry, reload interval). Floating-point quantities are
  modelled as real numbers: a value here is the exact value of which the program holds
  the double-precision rounding. What is proved below of these quantities rests on
  order and sign only, which rounding preserves; no exact bound on an accumulated or
  divided figure is drawn from the model.
\<close>

record scalene =
  cpu_samples_python :: "int table"
  cpu_samples_c :: "real table"
  memory_free_samples :: "int table"
  memory_malloc_samples :: "int table"
  total_cpu_samples :: real
  total_memory_free_samples :: int
  total_memory_malloc_samples :: int
  last_signal_interval :: real
  last_signal_time :: real
  elapsed_time :: real
  program_being_profiled :: string
  program_path :: string
  should_trace_cache :: "(string \<times> bool) list"
  cwd :: string
  signal_handlers :: "nat \<Rightarrow> disposition"
  itimer :: "real \<times> real"

definition mean_signal_interval :: real where
  "mean_signal_interval = 1 / 100"

definition malloc_sampling_rate :: int where
  "malloc_sampling_rate = 256 * 1024 * 1024"

text \<open>
  \<open>signal.setitimer(Scalene.cpu_timer_signal, seconds, interval)\<close>: the system call
  rejects a negative time.
\<close>

definition setitimer :: "scalene \<Rightarrow> real \<Rightarrow> real \<Rightarrow> error + scalene" where
  "setitimer s seconds interval =
     (if seconds < 0 \<or> interval < 0 then Inl ItimerError
      else Inr (s\<lparr>itimer := (seconds, interval)\<rparr>))"

text \<open>
  \<open>Scalene.__init__\<close>, applied to the class attributes at their initial values. \<open>t0\<close> is
  the reading of \<open>Scalene.gettime()\<close>; \<open>cwd0\<close> is the working directory at that moment.
\<close>

definition init :: "string \<Rightarrow> string \<Rightarrow> real \<Rightarrow> scalene" where
  "init prog cwd0 t0 =
     \<lparr> cpu_samples_python = [],
       cpu_samples_c = [],
       memory_free_samples = [],
       memory_malloc_samples = [],
       total_cpu_samples = 0,
       total_memory_free_samples = 0,
       total_memory_malloc_samples = 0,
       last_signal_interval = 1 / 100,
       last_signal_time = t0,
       elapsed_time = 0,
       program_being_profiled = abspath cwd0 prog,
       program_path = dirname (abspath cwd0 prog),
       should_trace_cache = [],
       cwd = cwd0,
       signal_handlers = (\<lambda>_. SIG_DFL)
         (cpu_signal := Handler CpuHandler,
          malloc_signal := Handler MallocHandler,
          free_signal := Handler FreeHandler),
       itimer = (mean_signal_interval, mean_signal_interval) \<rparr>"

subsection \<open>The memoised filter\<close>

text \<open>
  \<open>Scalene.should_trace\<close> as decorated with \<open>lru_cache(128)\<close>: a hit returns the stored
  result and makes the entry the most recent one; a miss runs the body, stores the
  result and evicts the least recently used entry when more than 128 are held. An
  exception of the body is not stored.
\<close>

definition lru_maxsize :: nat where
  "lru_maxsize = 128"

definition should_trace :: "scalene \<Rightarrow> string \<Rightarrow> (error + bool) \<times> scalene" where
  "should_trace s filename =
     (case map_of (should_trace_cache s) filename of
        Some b \<Rightarrow>
          (Inr b, s\<lparr>should_trace_cache :=
                      (filename, b) # filter (\<lambda>e. fst e \<noteq> filename) (should_trace_cache s)\<rparr>)
      | None \<Rightarrow>
          (case should_trace_body (program_path s) (cwd s) filename of
             Inl e \<Rightarrow> (Inl e, s)
           | Inr b \<Rightarrow>
               (Inr b, s\<lparr>should_trace_cache :=
                           take lru_maxsize ((filename, b) # should_trace_cache s)\<rparr>)))"

subsection \<open>Signal handlers\<close>

text \<open>\<open>random.uniform(a, b)\<close> is \<open>a + (b - a) * random()\<close>, with \<open>random()\<close> in \<open>[0, 1)\<close>.\<close>

definition uniform :: "real \<Rightarrow> real \<Rightarrow> real \<Rightarrow> real" where
  "uniform a b u = a + (b - a) * u"

text \<open>
  \<open>cpu_signal_handler\<close>. \<open>now\<close> is the reading of \<open>gettime()\<close> on entry, \<open>u\<close> the value of
  \<open>random()\<close> behind the draw of the next interval, \<open>now'\<close> the reading of \<open>gettime()\<close>
  that is stored as \<open>last_signal_time\<close>. \<open>frame_fname\<close> is the handler's choice of file
  name: that of the frame, or of the outer frame when the frame's is empty;
  \<open>frame.f_back\<close> is \<open>None\<close> in the outermost frame, where the attribute access raises.
\<close>

definition frame_fname :: "frame \<Rightarrow> error + string" where
  "frame_fname frame =
     (let fname = co_filename frame in
      if length fname = 0
      then (case f_back frame of
              None \<Rightarrow> Inl AttributeError
            | Some outer \<Rightarrow> Inr (co_filename outer))
      else Inr fname)"

definition cpu_signal_handler :: "scalene \<Rightarrow> frame \<Rightarrow> real \<Rightarrow> real \<Rightarrow> real \<Rightarrow> error + scalene" where
  "cpu_signal_handler s frame now u now' =
     (let elapsed_since_last_signal = now - last_signal_time s in
      case frame_fname frame of
        Inl e \<Rightarrow> Inl e
      | Inr fname \<Rightarrow>
          (case should_trace s fname of
             (Inl e, _) \<Rightarrow> Inl e
           | (Inr traced, s1) \<Rightarrow>
               if \<not> traced then
                 (let s2 = s1\<lparr>last_signal_time := now'\<rparr>;
                      s3 = s2\<lparr>last_signal_interval :=
                                uniform (mean_signal_interval / 2) (mean_signal_interval * 3 / 2) u\<rparr>
                  in setitimer s3 (last_signal_interval s3) (last_signal_interval s3))
               else if last_signal_interval s1 = 0 then Inl ZeroDivisionError
               else
                 (let c_time = elapsed_since_last_signal - last_signal_interval s1;
                      s2 = s1\<lparr>cpu_samples_python :=
                                table_add fname (f_lineno frame) 1 (cpu_samples_python s1)\<rparr>;
                      s3 = s2\<lparr>cpu_samples_c :=
                                table_add fname (f_lineno frame) (c_time / last_signal_interval s2)
                                  (cpu_samples_c s2)\<rparr>;
                      s4 = s3\<lparr>total_cpu_samples :=
                                total_cpu_samples s3
                                  + elapsed_since_last_signal / last_signal_interval s3\<rparr>;
                      s5 = s4\<lparr>last_signal_interval :=
                                uniform (mean_signal_interval / 2) (mean_signal_interval * 3 / 2) u\<rparr>
                  in case setitimer s5 (last_signal_interval s5) (last_signal_interval s5) of
                       Inl e \<Rightarrow> Inl e
                     | Inr s6 \<Rightarrow> Inr (s6\<lparr>last_signal_time := now'\<rparr>))))"

definition malloc_signal_handler :: "scalene \<Rightarrow> frame \<Rightarrow> error + scalene" where
  "malloc_signal_handler s frame =
     (let fname = co_filename frame in
      case should_trace s fname of
        (Inl e, _) \<Rightarrow> Inl e
      | (Inr traced, s1) \<Rightarrow>
          if \<not> traced then Inr s1
          else
            (let s2 = s1\<lparr>memory_malloc_samples :=
                           table_add fname (f_lineno frame) 1 (memory_malloc_samples s1)\<rparr>
             in Inr (s2\<lparr>total_memory_malloc_samples := total_memory_malloc_samples s2 + 1\<rparr>)))"

definition free_signal_handler :: "scalene \<Rightarrow> frame \<Rightarrow> error + scalene" where
  "free_signal_handler s frame =
     (let fname = co_filename frame in
      case should_trace s fname of
        (Inl e, _) \<Rightarrow> Inl e
      | (Inr traced, s1) \<Rightarrow>
          if \<not> traced then Inr s1
          else
            (let s2 = s1\<lparr>memory_free_samples :=
                           table_add fname (f_lineno frame) 1 (memory_free_samples s1)\<rparr>
             in Inr (s2\<lparr>total_memory_free_samples := total_memory_free_samples s2 + 1\<rparr>)))"

subsection \<open>Lifecycle\<close>

text \<open>
  \<open>disable_signals\<close> passes the timer identifier \<open>cpu_timer_signal\<close> to \<open>signal.signal\<close>,
  so the disposition it sets to \<open>SIG_IGN\<close> is that of signal number 1; \<open>setitimer\<close> with
  0 seconds disarms the timer.
\<close>

definition disable_signals :: "scalene \<Rightarrow> scalene" where
  "disable_signals s =
     s\<lparr>signal_handlers :=
         (signal_handlers s)
           (cpu_timer_signal := SIG_IGN, malloc_signal := SIG_IGN, free_signal := SIG_IGN),
       itimer := (0, 0)\<rparr>"

text \<open>\<open>start\<close> and \<open>stop\<close>; \<open>t\<close> is the reading of \<open>gettime()\<close>.\<close>

definition start :: "scalene \<Rightarrow> real \<Rightarrow> scalene" where
  "start s t = s\<lparr>elapsed_time := t\<rparr>"

definition stop :: "scalene \<Rightarrow> real \<Rightarrow> scalene" where
  "stop s t = (let s1 = disable_signals s in s1\<lparr>elapsed_time := t - elapsed_time s1\<rparr>)"

definition exit_handler :: "scalene \<Rightarrow> scalene" where
  "exit_handler s = disable_signals s"

section \<open>The report\<close>

text \<open>
  \<open>output_profiles\<close> reads the state and prints. The values it computes are defined one
  by one below; the printed text is modelled by the cells of each row, an empty cell
  (the empty string of the source) being \<open>None\<close>.
\<close>

definition did_sample_memory :: "scalene \<Rightarrow> bool" where
  "did_sample_memory s =
     (total_memory_free_samples s + total_memory_malloc_samples s > 1)"

definition all_instrumented_files :: "scalene \<Rightarrow> string list" where
  "all_instrumented_files s =
     remdups (map fst (cpu_samples_python s) @ map fst (memory_free_samples s)
              @ map fst (memory_malloc_samples s))"

definition this_cpu_samples :: "scalene \<Rightarrow> string \<Rightarrow> real" where
  "this_cpu_samples s fname =
     sum_list (file_values (cpu_samples_c s) fname)
     + real_of_int (sum_list (file_values (cpu_samples_python s) fname))"

text \<open>The \<open>try\<close> block: division by a zero total raises, and the handler stores 0.\<close>

definition percent_cpu_time :: "scalene \<Rightarrow> string \<Rightarrow> real" where
  "percent_cpu_time s fname =
     (if total_cpu_samples s = 0 then 0
      else 100 * this_cpu_samples s fname / total_cpu_samples s)"

definition n_cpu_samples_c :: "scalene \<Rightarrow> string \<Rightarrow> int \<Rightarrow> real" where
  "n_cpu_samples_c s fname line_no =
     (let n = table_get (cpu_samples_c s) fname line_no in if n < 0 then 0 else n)"

definition n_cpu_samples_python :: "scalene \<Rightarrow> string \<Rightarrow> int \<Rightarrow> int" where
  "n_cpu_samples_python s fname line_no = table_get (cpu_samples_python s) fname line_no"

definition n_cpu_percent_c :: "scalene \<Rightarrow> string \<Rightarrow> int \<Rightarrow> real" where
  "n_cpu_percent_c s fname line_no =
     (if total_cpu_samples s \<noteq> 0
      then n_cpu_samples_c s fname line_no * 100 / total_cpu_samples s
      else 0)"

definition n_cpu_percent_python :: "scalene \<Rightarrow> string \<Rightarrow> int \<Rightarrow> real" where
  "n_cpu_percent_python s fname line_no =
     (if total_cpu_samples s \<noteq> 0
      then real_of_int (n_cpu_samples_python s fname line_no) * 100 / total_cpu_samples s
      else 0)"

definition n_free_mb :: "scalene \<Rightarrow> string \<Rightarrow> int \<Rightarrow> real" where
  "n_free_mb s fname line_no =
     real_of_int (table_get (memory_free_samples s) fname line_no * malloc_sampling_rate)
       / (1024 * 1024)"

definition n_malloc_mb :: "scalene \<Rightarrow> string \<Rightarrow> int \<Rightarrow> real" where
  "n_malloc_mb s fname line_no =
     real_of_int (table_get (memory_malloc_samples s) fname line_no * malloc_sampling_rate)
       / (1024 * 1024)"

definition n_growth_mb :: "scalene \<Rightarrow> string \<Rightarrow> int \<Rightarrow> real" where
  "n_growth_mb s fname line_no = n_malloc_mb s fname line_no - n_free_mb s fname line_no"

definition n_usage_mb :: "scalene \<Rightarrow> string \<Rightarrow> int \<Rightarrow> real" where
  "n_usage_mb s fname line_no = n_malloc_mb s fname line_no + n_free_mb s fname line_no"

text \<open>A cell is empty when its value is 0.\<close>

definition cell :: "real \<Rightarrow> real option" where
  "cell x = (if x = 0 then None else Some x)"

record report_row =
  row_line_no :: int
  row_cpu_percent_python :: "real option"
  row_cpu_percent_c :: "real option"
  row_memory :: "(real option \<times> real option) option"
  row_line :: string

record file_report =
  report_fname :: string
  report_percent_cpu_time :: real
  report_elapsed_time :: real
  report_memory_columns :: bool
  report_rows :: "report_row list"

definition report_line :: "scalene \<Rightarrow> string \<Rightarrow> int \<times> string \<Rightarrow> report_row" where
  "report_line s fname numbered =
     (case numbered of (line_no, line) \<Rightarrow>
        \<lparr> row_line_no = line_no,
          row_cpu_percent_python = cell (n_cpu_percent_python s fname line_no),
          row_cpu_percent_c = cell (n_cpu_percent_c s fname line_no),
          row_memory =
            (if did_sample_memory s
             then Some (cell (n_growth_mb s fname line_no), cell (n_usage_mb s fname line_no))
             else None),
          row_line = line \<rparr>)"

text \<open>
  The body of the loop over files. \<open>source\<close> gives the lines of a readable file
  (already stripped of the newline) and \<open>None\<close> for a file that \<open>open\<close> cannot read.
\<close>

definition report_file ::
  "scalene \<Rightarrow> (string \<Rightarrow> string list option) \<Rightarrow> string \<Rightarrow> error + file_report" where
  "report_file s source fname =
     (case source fname of
        None \<Rightarrow> Inl FileNotFoundError
      | Some lines \<Rightarrow>
          Inr \<lparr> report_fname = fname,
                report_percent_cpu_time = percent_cpu_time s fname,
                report_elapsed_time = elapsed_time s,
                report_memory_columns = did_sample_memory s,
                report_rows =
                  map (report_line s fname) (zip (map int [1..<Suc (length lines)]) lines) \<rparr>)"

fun report_files ::
  "scalene \<Rightarrow> (string \<Rightarrow> string list option) \<Rightarrow> string list \<Rightarrow> error + file_report list" where
  "report_files s source [] = Inr []"
| "report_files s source (fname # fnames) =
     (case report_file s source fname of
        Inl e \<Rightarrow> Inl e
      | Inr r \<Rightarrow>
          (case report_files s source fnames of
             Inl e \<Rightarrow> Inl e
           | Inr rs \<Rightarrow> Inr (r # rs)))"

definition output_profiles ::
  "scalene \<Rightarrow> (string \<Rightarrow> string list option) \<Rightarrow> error + file_report list" where
  "output_profiles s source = report_files s source (sort (all_instrumented_files s))"

section \<open>Runs of the profiler\<close>

text \<open>
  What happens to the profiler between \<open>__init__\<close> and the report: the three signals
  (each with the values the handler reads from its environment), \<open>start\<close>, \<open>stop\<close>, the
  exit handler, and a change of working directory by the profiled program or by \<open>main\<close>.
\<close>

datatype event =
    CpuSignal frame real real real
  | MallocSignal frame
  | FreeSignal frame
  | Start real
  | Stop real
  | AtExit
  | Chdir string

fun step :: "scalene \<Rightarrow> event \<Rightarrow> error + scalene" where
  "step s (CpuSignal frame now u now') = cpu_signal_handler s frame now u now'"
| "step s (MallocSignal frame) = malloc_signal_handler s frame"
| "step s (FreeSignal frame) = free_signal_handler s frame"
| "step s (Start t) = Inr (start s t)"
| "step s (Stop t) = Inr (stop s t)"
| "step s AtExit = Inr (exit_handler s)"
| "step s (Chdir d) = Inr (s\<lparr>cwd := d\<rparr>)"

fun run :: "scalene \<Rightarrow> event list \<Rightarrow> error + scalene" where
  "run s [] = Inr s"
| "run s (e # es) = (case step s e of Inl err \<Rightarrow> Inl err | Inr s' \<Rightarrow> run s' es)"

text \<open>
  A run that fills the filter's cache: \<open>n\<close> allocation signals from \<open>n\<close> distinct code
  units that have no source file, named \<open><>\<close>, \<open><a>\<close>, \<open><aa>\<close> and so on.
\<close>

definition synthetic_name :: "nat \<Rightarrow> string" where
  "synthetic_name n = CHR ''<'' # replicate n CHR ''a'' @ [CHR ''>'']"

fun synthetic_signals :: "nat \<Rightarrow> event list" where
  "synthetic_signals 0 = []"
| "synthetic_signals (Suc n) =
     MallocSignal (Frame (synthetic_name n) 1 None) # synthetic_signals n"

fun is_chdir :: "event \<Rightarrow> bool" where
  "is_chdir (Chdir d) = True"
| "is_chdir _ = False"

text \<open>\<open>random()\<close> returns a value in \<open>[0, 1)\<close>.\<close>

fun random_ok :: "event \<Rightarrow> bool" where
  "random_ok (CpuSignal frame now u now') = (0 \<le> u \<and> u < 1)"
| "random_ok _ = True"

section \<open>The specification's wording\<close>

text \<open>
  Containment as the specification words it: a path is contained in a root directory
  when it is equal to it or a descendant of it.
\<close>

definition spec_contained_in :: "string \<Rightarrow> string \<Rightarrow> bool" where
  "spec_contained_in root_dir path = (path = root_dir \<or> startswith path (root_dir @ ''/''))"

text \<open>
  The per-file CPU total as the specification words it: the native entries clamped at
  zero, plus the interpreted entries.
\<close>

definition spec_this_file_cpu_samples :: "scalene \<Rightarrow> string \<Rightarrow> real" where
  "spec_this_file_cpu_samples s fname =
     sum_list (map (max 0) (file_values (cpu_samples_c s) fname))
     + real_of_int (sum_list (file_values (cpu_samples_python s) fname))"

section \<open>Evaluation lemmas\<close>

lemmas path_defs =
  abspath_def normpath_def isabs_def norm_step_def path_join_def dirname_def rfind_def rstrip_def

section \<open>What a handler that returns has done\<close>

lemma should_trace_cache_only:
  assumes "should_trace s f = (r, s')"
  shows "\<exists>c. s' = s\<lparr>should_trace_cache := c\<rparr>"
proof -
  from assms have "s' = s\<lparr>should_trace_cache := should_trace_cache s'\<rparr>"
    by (auto simp: should_trace_def split: option.splits sum.splits)
  then show ?thesis ..
qed

lemma uniform_bounds:
  assumes "a \<le> b" "0 \<le> u" "u < 1"
  shows "a \<le> uniform a b u" and "uniform a b u \<le> b"
proof -
  have d: "0 \<le> b - a" using assms by simp
  have "0 \<le> (b - a) * u" using d assms by simp
  then show "a \<le> uniform a b u" by (simp add: uniform_def)
  have "(b - a) * u \<le> (b - a) * 1" using d assms by (intro mult_left_mono) simp_all
  then show "uniform a b u \<le> b" by (simp add: uniform_def)
qed

lemma next_interval_bounds:
  assumes "0 \<le> u" "u < 1"
  shows "mean_signal_interval / 2
           \<le> uniform (mean_signal_interval / 2) (mean_signal_interval * 3 / 2) u"
    and "uniform (mean_signal_interval / 2) (mean_signal_interval * 3 / 2) u
           \<le> mean_signal_interval * 3 / 2"
    and "0 \<le> uniform (mean_signal_interval / 2) (mean_signal_interval * 3 / 2) u"
proof -
  have le: "mean_signal_interval / 2 \<le> mean_signal_interval * 3 / 2"
    by (simp add: mean_signal_interval_def)
  show a: "mean_signal_interval / 2
             \<le> uniform (mean_signal_interval / 2) (mean_signal_interval * 3 / 2) u"
    using uniform_bounds(1)[OF le assms] .
  show "uniform (mean_signal_interval / 2) (mean_signal_interval * 3 / 2) u
          \<le> mean_signal_interval * 3 / 2"
    using uniform_bounds(2)[OF le assms] .
  have "0 \<le> mean_signal_interval / 2" by (simp add: mean_signal_interval_def)
  with a show "0 \<le> uniform (mean_signal_interval / 2) (mean_signal_interval * 3 / 2) u"
    by linarith
qed

lemma cpu_signal_handler_Inr:
  assumes "cpu_signal_handler s frame now u now' = Inr s'"
  obtains (skipped) fname c where
      "frame_fname frame = Inr fname"
      "should_trace s fname = (Inr False, s\<lparr>should_trace_cache := c\<rparr>)"
      "s' = s\<lparr>should_trace_cache := c, last_signal_time := now',
              last_signal_interval :=
                uniform (mean_signal_interval / 2) (mean_signal_interval * 3 / 2) u,
              itimer := (uniform (mean_signal_interval / 2) (mean_signal_interval * 3 / 2) u,
                         uniform (mean_signal_interval / 2) (mean_signal_interval * 3 / 2) u)\<rparr>"
  | (attributed) fname c where
      "frame_fname frame = Inr fname"
      "should_trace s fname = (Inr True, s\<lparr>should_trace_cache := c\<rparr>)"
      "last_signal_interval s \<noteq> 0"
      "s' = s\<lparr>should_trace_cache := c,
              cpu_samples_python := table_add fname (f_lineno frame) 1 (cpu_samples_python s),
              cpu_samples_c := table_add fname (f_lineno frame)
                 ((now - last_signal_time s - last_signal_interval s) / last_signal_interval s)
                 (cpu_samples_c s),
              total_cpu_samples := total_cpu_samples s
                 + (now - last_signal_time s) / last_signal_interval s,
              last_signal_interval :=
                uniform (mean_signal_interval / 2) (mean_signal_interval * 3 / 2) u,
              itimer := (uniform (mean_signal_interval / 2) (mean_signal_interval * 3 / 2) u,
                         uniform (mean_signal_interval / 2) (mean_signal_interval * 3 / 2) u),
              last_signal_time := now'\<rparr>"
proof -
  from assms obtain fname where fn: "frame_fname frame = Inr fname"
    by (cases "frame_fname frame") (auto simp: cpu_signal_handler_def Let_def)
  obtain r s1 where st: "should_trace s fname = (r, s1)" by (cases "should_trace s fname")
  from should_trace_cache_only[OF st] obtain c where s1: "s1 = s\<lparr>should_trace_cache := c\<rparr>"
    by blast
  from assms fn st obtain traced where r: "r = Inr traced"
    by (cases r) (auto simp: cpu_signal_handler_def Let_def)
  show thesis
  proof (cases traced)
    case False
    with assms fn st r s1 have "s' = s\<lparr>should_trace_cache := c, last_signal_time := now',
              last_signal_interval :=
                uniform (mean_signal_interval / 2) (mean_signal_interval * 3 / 2) u,
              itimer := (uniform (mean_signal_interval / 2) (mean_signal_interval * 3 / 2) u,
                         uniform (mean_signal_interval / 2) (mean_signal_interval * 3 / 2) u)\<rparr>"
      by (auto simp: cpu_signal_handler_def Let_def setitimer_def split: if_splits)
    with fn st r s1 False show thesis by (intro skipped) auto
  next
    case True
    with assms fn st r s1 have nz: "last_signal_interval s \<noteq> 0"
      by (auto simp: cpu_signal_handler_def Let_def split: if_splits)
    from True assms fn st r s1 nz have "s' = s\<lparr>should_trace_cache := c,
              cpu_samples_python := table_add fname (f_lineno frame) 1 (cpu_samples_python s),
              cpu_samples_c := table_add fname (f_lineno frame)
                 ((now - last_signal_time s - last_signal_interval s) / last_signal_interval s)
                 (cpu_samples_c s),
              total_cpu_samples := total_cpu_samples s
                 + (now - last_signal_time s) / last_signal_interval s,
              last_signal_interval :=
                uniform (mean_signal_interval / 2) (mean_signal_interval * 3 / 2) u,
              itimer := (uniform (mean_signal_interval / 2) (mean_signal_interval * 3 / 2) u,
                         uniform (mean_signal_interval / 2) (mean_signal_interval * 3 / 2) u),
              last_signal_time := now'\<rparr>"
      by (auto simp: cpu_signal_handler_def Let_def setitimer_def split: if_splits)
    with fn st r s1 True nz show thesis by (intro attributed) auto
  qed
qed

lemma malloc_signal_handler_Inr:
  assumes "malloc_signal_handler s frame = Inr s'"
  obtains (skipped) c where
      "should_trace s (co_filename frame) = (Inr False, s\<lparr>should_trace_cache := c\<rparr>)"
      "s' = s\<lparr>should_trace_cache := c\<rparr>"
  | (attributed) c where
      "should_trace s (co_filename frame) = (Inr True, s\<lparr>should_trace_cache := c\<rparr>)"
      "s' = s\<lparr>should_trace_cache := c,
              memory_malloc_samples :=
                table_add (co_filename frame) (f_lineno frame) 1 (memory_malloc_samples s),
              total_memory_malloc_samples := total_memory_malloc_samples s + 1\<rparr>"
proof -
  obtain r s1 where st: "should_trace s (co_filename frame) = (r, s1)"
    by (cases "should_trace s (co_filename frame)")
  from should_trace_cache_only[OF st] obtain c where s1: "s1 = s\<lparr>should_trace_cache := c\<rparr>"
    by blast
  from assms st obtain traced where r: "r = Inr traced"
    by (cases r) (auto simp: malloc_signal_handler_def Let_def)
  show thesis
  proof (cases traced)
    case False
    with assms st r s1 show thesis
      by (intro skipped[of c]) (auto simp: malloc_signal_handler_def Let_def)
  next
    case True
    with assms st r s1 show thesis
      by (intro attributed[of c]) (auto simp: malloc_signal_handler_def Let_def)
  qed
qed

lemma free_signal_handler_Inr:
  assumes "free_signal_handler s frame = Inr s'"
  obtains (skipped) c where
      "should_trace s (co_filename frame) = (Inr False, s\<lparr>should_trace_cache := c\<rparr>)"
      "s' = s\<lparr>should_trace_cache := c\<rparr>"
  | (attributed) c where
      "should_trace s (co_filename frame) = (Inr True, s\<lparr>should_trace_cache := c\<rparr>)"
      "s' = s\<lparr>should_trace_cache := c,
              memory_free_samples :=
                table_add (co_filename frame) (f_lineno frame) 1 (memory_free_samples s),
              total_memory_free_samples := total_memory_free_samples s + 1\<rparr>"
proof -
  obtain r s1 where st: "should_trace s (co_filename frame) = (r, s1)"
    by (cases "should_trace s (co_filename frame)")
  from should_trace_cache_only[OF st] obtain c where s1: "s1 = s\<lparr>should_trace_cache := c\<rparr>"
    by blast
  from assms st obtain traced where r: "r = Inr traced"
    by (cases r) (auto simp: free_signal_handler_def Let_def)
  show thesis
  proof (cases traced)
    case False
    with assms st r s1 show thesis
      by (intro skipped[of c]) (auto simp: free_signal_handler_def Let_def)
  next
    case True
    with assms st r s1 show thesis
      by (intro attributed[of c]) (auto simp: free_signal_handler_def Let_def)
  qed
qed

text \<open>An invariant of the steps holds after every run that returns.\<close>

lemma run_invariant:
  assumes "run s evs = Inr s'" and "P s"
    and "\<And>s e s'. e \<in> set evs \<Longrightarrow> P s \<Longrightarrow> step s e = Inr s' \<Longrightarrow> P s'"
  shows "P s'"
  using assms
proof (induction evs arbitrary: s)
  case Nil
  then show ?case by simp
next
  case (Cons e es)
  from Cons.prems(1) obtain s1 where s1: "step s e = Inr s1" and rest: "run s1 es = Inr s'"
    by (auto split: sum.splits)
  have p1: "P s1" using Cons.prems(3)[of e s s1] Cons.prems(2) s1 by simp
  show ?case
  proof (rule Cons.IH[OF rest p1])
    fix t e' t'
    assume "e' \<in> set es" "P t" "step t e' = Inr t'"
    then show "P t'" using Cons.prems(3)[of e' t t'] by simp
  qed
qed

lemma run_append:
  "run s (es @ fs) = (case run s es of Inl err \<Rightarrow> Inl err | Inr s' \<Rightarrow> run s' fs)"
  by (induction es arbitrary: s) (auto split: sum.splits)

section \<open>The location filter and containment\<close>

text \<open>
  Claim C1. The filter is to accept a file name exactly when its absolute path is the
  program's directory or lies below it, and to reject every absolute path outside it.
  \<open>should_trace\<close> tests whether \<open>program_path\<close> occurs anywhere in the absolute path:
  for the program \<open>/home/user/app/prog.py\<close> it accepts \<open>/home/user/app2/lib.py\<close>, a
  file of a sibling directory that is not contained in \<open>/home/user/app\<close>.
\<close>

theorem should_trace_accepts_sibling_directory:
  "fst (should_trace (init ''/home/user/app/prog.py'' ''/home/user/app'' 0)
          ''/home/user/app2/lib.py'') = Inr True
   \<and> program_path (init ''/home/user/app/prog.py'' ''/home/user/app'' 0) = ''/home/user/app''
   \<and> abspath ''/home/user/app'' ''/home/user/app2/lib.py'' = ''/home/user/app2/lib.py''
   \<and> \<not> spec_contained_in ''/home/user/app'' ''/home/user/app2/lib.py''"
  by (simp add: should_trace_def should_trace_body_def init_def path_defs spec_contained_in_def)

section \<open>Handlers and empty file names\<close>

text \<open>
  Claim C2. No handler is to raise, whatever the frame. A frame whose file name is empty
  makes \<open>malloc_signal_handler\<close> and \<open>free_signal_handler\<close> raise \<open>IndexError\<close> (from
  \<open>filename[0]\<close> in \<open>should_trace\<close>); \<open>cpu_signal_handler\<close>, which looks at the outer
  frame in that case, raises \<open>AttributeError\<close> when there is no outer frame and
  \<open>IndexError\<close> when the outer frame's file name is empty too.
\<close>

theorem handlers_raise_on_empty_filename:
  "malloc_signal_handler (init ''/home/user/app/prog.py'' ''/home/user/app'' 0)
      (Frame [] 1 (Some (Frame ''/home/user/app/prog.py'' 5 None))) = Inl IndexError
   \<and> free_signal_handler (init ''/home/user/app/prog.py'' ''/home/user/app'' 0)
      (Frame [] 1 (Some (Frame ''/home/user/app/prog.py'' 5 None))) = Inl IndexError
   \<and> cpu_signal_handler (init ''/home/user/app/prog.py'' ''/home/user/app'' 0)
      (Frame [] 1 None) (1 / 50) (1 / 2) (1 / 50) = Inl AttributeError
   \<and> cpu_signal_handler (init ''/home/user/app/prog.py'' ''/home/user/app'' 0)
      (Frame [] 1 (Some (Frame [] 5 None))) (1 / 50) (1 / 2) (1 / 50) = Inl IndexError"
  by (simp add: malloc_signal_handler_def free_signal_handler_def cpu_signal_handler_def
      frame_fname_def should_trace_def should_trace_body_def init_def)

section \<open>The per-file CPU total\<close>

text \<open>
  Claim C3, as stated: the per-file total counts every native entry clamped at zero.
  One CPU signal that arrives 0.009 s after the previous one, with an interval of
  0.01 s, leaves the native entry \<open>- 1 / 10\<close> for line 3; \<open>output_profiles\<close> sums the
  stored entries as they are and gets \<open>9 / 10\<close>, where the clamped sum is 1.
\<close>

theorem file_total_counts_negative_native_entry:
  "step (init ''/home/user/app/prog.py'' ''/home/user/app'' 0)
     (CpuSignal (Frame ''/home/user/app/prog.py'' 3 None) (9 / 1000) (1 / 2) (9 / 1000))
   = Inr ((init ''/home/user/app/prog.py'' ''/home/user/app'' 0)
       \<lparr>cpu_samples_python := [(''/home/user/app/prog.py'', [(3, 1)])],
        cpu_samples_c := [(''/home/user/app/prog.py'', [(3, - (1 / 10))])],
        total_cpu_samples := 9 / 10,
        last_signal_time := 9 / 1000,
        should_trace_cache := [(''/home/user/app/prog.py'', True)]\<rparr>)
   \<and> this_cpu_samples ((init ''/home/user/app/prog.py'' ''/home/user/app'' 0)
       \<lparr>cpu_samples_python := [(''/home/user/app/prog.py'', [(3, 1)])],
        cpu_samples_c := [(''/home/user/app/prog.py'', [(3, - (1 / 10))])],
        total_cpu_samples := 9 / 10,
        last_signal_time := 9 / 1000,
        should_trace_cache := [(''/home/user/app/prog.py'', True)]\<rparr>)
       ''/home/user/app/prog.py'' = 9 / 10
   \<and> spec_this_file_cpu_samples ((init ''/home/user/app/prog.py'' ''/home/user/app'' 0)
       \<lparr>cpu_samples_python := [(''/home/user/app/prog.py'', [(3, 1)])],
        cpu_samples_c := [(''/home/user/app/prog.py'', [(3, - (1 / 10))])],
        total_cpu_samples := 9 / 10,
        last_signal_time := 9 / 1000,
        should_trace_cache := [(''/home/user/app/prog.py'', True)]\<rparr>)
       ''/home/user/app/prog.py'' = 1"
  by (simp add: cpu_signal_handler_def frame_fname_def should_trace_def should_trace_body_def
      init_def path_defs setitimer_def uniform_def mean_signal_interval_def lru_maxsize_def
      this_cpu_samples_def spec_this_file_cpu_samples_def file_values_def)

lemma sum_list_le_clamped:
  fixes xs :: "real list"
  shows "sum_list xs \<le> sum_list (map (max 0) xs)"
  by (induction xs) (simp_all add: add_mono)

lemma clamped_nonneg:
  fixes xs :: "real list"
  assumes "list_all (\<lambda>v. 0 \<le> v) xs"
  shows "map (max 0) xs = xs"
  using assms by (induction xs) (simp_all add: max_def)

text \<open>
  Claim C3, amended. The per-file total is the sum of the native entries of the file
  as they are stored, unclamped, plus the sum of its interpreted entries. It is never
  above the clamped sum of the specification and equals it whenever no native entry of
  the file is negative. (Both comparisons also hold of the rounded sums the program
  computes: rounding is monotone, and the two sums are one computation when no entry
  is negative.)
\<close>

theorem this_cpu_samples_stored_sum:
  "this_cpu_samples s fname
     = sum_list (file_values (cpu_samples_c s) fname)
       + real_of_int (sum_list (file_values (cpu_samples_python s) fname))
   \<and> this_cpu_samples s fname \<le> spec_this_file_cpu_samples s fname
   \<and> (list_all (\<lambda>v. 0 \<le> v) (file_values (cpu_samples_c s) fname)
        \<longrightarrow> this_cpu_samples s fname = spec_this_file_cpu_samples s fname)"
proof (intro conjI impI)
  show "this_cpu_samples s fname
     = sum_list (file_values (cpu_samples_c s) fname)
       + real_of_int (sum_list (file_values (cpu_samples_python s) fname))"
    by (simp add: this_cpu_samples_def)
  show "this_cpu_samples s fname \<le> spec_this_file_cpu_samples s fname"
    using sum_list_le_clamped[of "file_values (cpu_samples_c s) fname"]
    by (simp add: this_cpu_samples_def spec_this_file_cpu_samples_def)
next
  assume "list_all (\<lambda>v. 0 \<le> v) (file_values (cpu_samples_c s) fname)"
  from clamped_nonneg[OF this]
  show "this_cpu_samples s fname = spec_this_file_cpu_samples s fname"
    by (simp add: this_cpu_samples_def spec_this_file_cpu_samples_def)
qed

theorem this_cpu_samples_stored_sum_witness:
  "step (init ''/home/user/app/prog.py'' ''/home/user/app'' 0)
     (CpuSignal (Frame ''/home/user/app/prog.py'' 3 None) (2 / 100) (1 / 2) (2 / 100))
   = Inr ((init ''/home/user/app/prog.py'' ''/home/user/app'' 0)
       \<lparr>cpu_samples_python := [(''/home/user/app/prog.py'', [(3, 1)])],
        cpu_samples_c := [(''/home/user/app/prog.py'', [(3, 1)])],
        total_cpu_samples := 2,
        last_signal_time := 2 / 100,
        should_trace_cache := [(''/home/user/app/prog.py'', True)]\<rparr>)
   \<and> list_all (\<lambda>v. 0 \<le> v)
        (file_values (cpu_samples_c ((init ''/home/user/app/prog.py'' ''/home/user/app'' 0)
           \<lparr>cpu_samples_python := [(''/home/user/app/prog.py'', [(3, 1)])],
            cpu_samples_c := [(''/home/user/app/prog.py'', [(3, 1)])],
            total_cpu_samples := 2,
            last_signal_time := 2 / 100,
            should_trace_cache := [(''/home/user/app/prog.py'', True)]\<rparr>))
          ''/home/user/app/prog.py'')
   \<and> spec_this_file_cpu_samples ((init ''/home/user/app/prog.py'' ''/home/user/app'' 0)
       \<lparr>cpu_samples_python := [(''/home/user/app/prog.py'', [(3, 1)])],
        cpu_samples_c := [(''/home/user/app/prog.py'', [(3, 1)])],
        total_cpu_samples := 2,
        last_signal_time := 2 / 100,
        should_trace_cache := [(''/home/user/app/prog.py'', True)]\<rparr>)
       ''/home/user/app/prog.py'' = 2
   \<and> this_cpu_samples ((init ''/home/user/app/prog.py'' ''/home/user/app'' 0)
       \<lparr>cpu_samples_python := [(''/home/user/app/prog.py'', [(3, 1)])],
        cpu_samples_c := [(''/home/user/app/prog.py'', [(3, 1)])],
        total_cpu_samples := 2,
        last_signal_time := 2 / 100,
        should_trace_cache := [(''/home/user/app/prog.py'', True)]\<rparr>)
       ''/home/user/app/prog.py'' = 2"
proof -
  let ?s = "(init ''/home/user/app/prog.py'' ''/home/user/app'' 0)
       \<lparr>cpu_samples_python := [(''/home/user/app/prog.py'', [(3, 1)])],
        cpu_samples_c := [(''/home/user/app/prog.py'', [(3, 1)])],
        total_cpu_samples := 2,
        last_signal_time := 2 / 100,
        should_trace_cache := [(''/home/user/app/prog.py'', True)]\<rparr>"
  have a: "step (init ''/home/user/app/prog.py'' ''/home/user/app'' 0)
     (CpuSignal (Frame ''/home/user/app/prog.py'' 3 None) (2 / 100) (1 / 2) (2 / 100)) = Inr ?s"
    by (simp add: Let_def cpu_signal_handler_def frame_fname_def should_trace_def
        should_trace_body_def init_def path_defs setitimer_def uniform_def
        mean_signal_interval_def lru_maxsize_def)
  have b: "list_all (\<lambda>v. 0 \<le> v) (file_values (cpu_samples_c ?s) ''/home/user/app/prog.py'')"
    by (simp add: file_values_def)
  have c: "spec_this_file_cpu_samples ?s ''/home/user/app/prog.py'' = 2"
    by (simp add: spec_this_file_cpu_samples_def file_values_def)
  from this_cpu_samples_stored_sum[of ?s "''/home/user/app/prog.py''"] b
  have "this_cpu_samples ?s ''/home/user/app/prog.py''
        = spec_this_file_cpu_samples ?s ''/home/user/app/prog.py''" by blast
  with c have d: "this_cpu_samples ?s ''/home/user/app/prog.py'' = 2" by simp
  from a b c d show ?thesis by (intro conjI)
qed

section \<open>The memory columns\<close>

text \<open>
  Claim C5. The memory columns are to be present exactly when at least one allocation
  or free event was recorded. After a single allocation signal, recorded for line 7 of
  the program, \<open>did_sample_memory\<close> is false (the sum of the two totals is compared
  with \<open>> 1\<close>), and the report of the file has no memory columns.
\<close>

theorem one_memory_event_no_memory_columns:
  "step (init ''/home/user/app/prog.py'' ''/home/user/app'' 0)
     (MallocSignal (Frame ''/home/user/app/prog.py'' 7 None))
   = Inr ((init ''/home/user/app/prog.py'' ''/home/user/app'' 0)
       \<lparr>memory_malloc_samples := [(''/home/user/app/prog.py'', [(7, 1)])],
        total_memory_malloc_samples := 1,
        should_trace_cache := [(''/home/user/app/prog.py'', True)]\<rparr>)
   \<and> did_sample_memory ((init ''/home/user/app/prog.py'' ''/home/user/app'' 0)
       \<lparr>memory_malloc_samples := [(''/home/user/app/prog.py'', [(7, 1)])],
        total_memory_malloc_samples := 1,
        should_trace_cache := [(''/home/user/app/prog.py'', True)]\<rparr>) = False
   \<and> map_sum id (map report_memory_columns)
       (output_profiles ((init ''/home/user/app/prog.py'' ''/home/user/app'' 0)
          \<lparr>memory_malloc_samples := [(''/home/user/app/prog.py'', [(7, 1)])],
           total_memory_malloc_samples := 1,
           should_trace_cache := [(''/home/user/app/prog.py'', True)]\<rparr>)
          (\<lambda>f. Some [''import os''])) = Inr [False]"
  by (simp add: Let_def malloc_signal_handler_def should_trace_def should_trace_body_def
      init_def path_defs lru_maxsize_def did_sample_memory_def output_profiles_def
      all_instrumented_files_def report_file_def)

section \<open>Stopping twice\<close>

text \<open>
  Claim C6, as stated: a second \<open>stop()\<close> leaves the state, and the elapsed time in
  particular, as the first one left it. It does not: started at process time 1 and
  stopped at 5, the profiler holds an elapsed time of 4; stopped again at 7, it holds
  \<open>7 - 4 = 3\<close>.
\<close>

theorem second_stop_changes_elapsed_time:
  "elapsed_time (stop (start (init ''/home/user/app/prog.py'' ''/home/user/app'' 0) 1) 5) = 4
   \<and> elapsed_time
        (stop (stop (start (init ''/home/user/app/prog.py'' ''/home/user/app'' 0) 1) 5) 7) = 3
   \<and> stop (stop (start (init ''/home/user/app/prog.py'' ''/home/user/app'' 0) 1) 5) 7
       \<noteq> stop (start (init ''/home/user/app/prog.py'' ''/home/user/app'' 0) 1) 5"
proof -
  let ?s = "stop (start (init ''/home/user/app/prog.py'' ''/home/user/app'' 0) 1) 5"
  have a: "elapsed_time ?s = 4" by (simp add: stop_def start_def disable_signals_def)
  have b: "elapsed_time (stop ?s 7) = 3" by (simp add: stop_def start_def disable_signals_def)
  from a b have "stop ?s 7 \<noteq> ?s" by auto
  with a b show ?thesis by blast
qed

text \<open>
  Claim C6, amended. The cleanup at process exit, \<open>exit_handler\<close>, is idempotent and
  leaves a stopped profiler exactly as it is, elapsed time included. A second \<open>stop\<close>
  at process time \<open>t'\<close> changes nothing but the elapsed time, which it replaces by
  \<open>t'\<close> minus the elapsed time the first \<open>stop\<close> had stored.
\<close>

theorem exit_handler_idempotent_second_stop_elapsed:
  "exit_handler (stop s t) = stop s t
   \<and> exit_handler (exit_handler s) = exit_handler s
   \<and> stop (stop s t) t' = (stop s t)\<lparr>elapsed_time := t' - elapsed_time (stop s t)\<rparr>
   \<and> elapsed_time (stop s t) = t - elapsed_time s"
  by (simp add: exit_handler_def stop_def disable_signals_def)

section \<open>Determinism of the filter\<close>

text \<open>Filling the cache with results for code units that have no source file.\<close>

lemma synthetic_name_inj: "synthetic_name a = synthetic_name b \<Longrightarrow> a = b"
proof -
  assume "synthetic_name a = synthetic_name b"
  then have "length (synthetic_name a) = length (synthetic_name b)" by simp
  then show "a = b" by (simp add: synthetic_name_def)
qed

lemma synthetic_name_body: "should_trace_body pp d (synthetic_name n) = Inr False"
  by (simp add: should_trace_body_def synthetic_name_def)

lemma synthetic_miss:
  assumes "map_of (should_trace_cache s) (synthetic_name n) = None"
  shows "step s (MallocSignal (Frame (synthetic_name n) 1 None))
         = Inr (s\<lparr>should_trace_cache :=
                    take lru_maxsize ((synthetic_name n, False) # should_trace_cache s)\<rparr>)"
  using assms
  by (simp add: malloc_signal_handler_def Let_def should_trace_def synthetic_name_body)

lemma take_append_take: "take m (xs @ take m ys) = take m (xs @ ys)"
  by (simp add: min_def)

lemma run_synthetic_signals:
  assumes "\<forall>k<n. map_of (should_trace_cache s) (synthetic_name k) = None"
    and "length (should_trace_cache s) \<le> lru_maxsize"
  shows "run s (synthetic_signals n)
         = Inr (s\<lparr>should_trace_cache :=
                    take lru_maxsize
                      (map (\<lambda>k. (synthetic_name k, False)) [0..<n] @ should_trace_cache s)\<rparr>)"
  using assms
proof (induction n arbitrary: s)
  case 0
  then show ?case by simp
next
  case (Suc n)
  let ?s1 = "s\<lparr>should_trace_cache :=
                 take lru_maxsize ((synthetic_name n, False) # should_trace_cache s)\<rparr>"
  have miss: "map_of (should_trace_cache s) (synthetic_name n) = None" using Suc.prems by simp
  have pre: "\<forall>k<n. map_of (should_trace_cache ?s1) (synthetic_name k) = None"
  proof (intro allI impI)
    fix k assume k: "k < n"
    then have "map_of (should_trace_cache s) (synthetic_name k) = None" using Suc.prems by simp
    then have a: "synthetic_name k \<notin> fst ` set (should_trace_cache s)"
      by (simp add: map_of_eq_None_iff)
    have b: "synthetic_name k \<noteq> synthetic_name n" using k synthetic_name_inj by blast
    have "set (take lru_maxsize ((synthetic_name n, False) # should_trace_cache s))
            \<subseteq> insert (synthetic_name n, False) (set (should_trace_cache s))"
      using set_take_subset[of lru_maxsize "(synthetic_name n, False) # should_trace_cache s"]
      by simp
    with a b have "synthetic_name k \<notin> fst ` set (should_trace_cache ?s1)" by auto
    then show "map_of (should_trace_cache ?s1) (synthetic_name k) = None"
      by (simp add: map_of_eq_None_iff)
  qed
  have len: "length (should_trace_cache ?s1) \<le> lru_maxsize" by simp
  show ?case
    using Suc.IH[OF pre len] synthetic_miss[OF miss]
    by (simp add: take_append_take del: take_append)
qed

text \<open>
  Claim C9. Two calls of the filter with the same raw file name are to return the same
  boolean, also across a change of working directory and after more than 128 distinct
  names. The program is started as \<open>prog.py\<close> in \<open>/home/user/app\<close>, so its frames carry
  the relative name \<open>prog.py\<close>, which the filter accepts. The program then changes to
  \<open>/tmp\<close>, and 128 other names pass through the filter and evict the entry; the next
  call with \<open>prog.py\<close> resolves it to \<open>/tmp/prog.py\<close> and rejects it, and an allocation
  signal from line 2 of the program is no longer recorded, although the program lies
  in its own directory. (Each run returns a state, \<open>\<not> isl\<close>, and \<open>projr\<close> is that
  state.)
\<close>

theorem filter_changes_after_chdir_and_eviction:
  "fst (should_trace (init ''/home/user/app/prog.py'' ''/home/user/app'' 0) ''prog.py'') = Inr True
   \<and> \<not> isl (run (init ''/home/user/app/prog.py'' ''/home/user/app'' 0)
          (MallocSignal (Frame ''prog.py'' 1 None) # Chdir ''/tmp'' # synthetic_signals 128))
   \<and> fst (should_trace
        (projr (run (init ''/home/user/app/prog.py'' ''/home/user/app'' 0)
          (MallocSignal (Frame ''prog.py'' 1 None) # Chdir ''/tmp'' # synthetic_signals 128)))
        ''prog.py'') = Inr False
   \<and> \<not> isl (run (init ''/home/user/app/prog.py'' ''/home/user/app'' 0)
          ((MallocSignal (Frame ''prog.py'' 1 None) # Chdir ''/tmp'' # synthetic_signals 128)
           @ [MallocSignal (Frame ''prog.py'' 2 None)]))
   \<and> memory_malloc_samples
        (projr (run (init ''/home/user/app/prog.py'' ''/home/user/app'' 0)
          ((MallocSignal (Frame ''prog.py'' 1 None) # Chdir ''/tmp'' # synthetic_signals 128)
           @ [MallocSignal (Frame ''prog.py'' 2 None)])))
       = [(''prog.py'', [(1, 1)])]"
proof -
  let ?s0 = "init ''/home/user/app/prog.py'' ''/home/user/app'' 0"
  let ?s2 = "?s0\<lparr>memory_malloc_samples := [(''prog.py'', [(1, 1)])],
                 total_memory_malloc_samples := 1,
                 should_trace_cache := [(''prog.py'', True)],
                 cwd := ''/tmp''\<rparr>"
  let ?E = "map (\<lambda>k. (synthetic_name k, False)) [0..<128]"
  let ?evs = "MallocSignal (Frame ''prog.py'' 1 None) # Chdir ''/tmp'' # synthetic_signals 128"
  have first: "fst (should_trace ?s0 ''prog.py'') = Inr True"
    by (simp add: should_trace_def should_trace_body_def init_def path_defs)
  have two: "run ?s0 (MallocSignal (Frame ''prog.py'' 1 None) # Chdir ''/tmp'' # evs) = run ?s2 evs"
    for evs
    by (simp add: Let_def malloc_signal_handler_def should_trace_def should_trace_body_def
        init_def path_defs lru_maxsize_def)
  have pre: "\<forall>k<128. map_of (should_trace_cache ?s2) (synthetic_name k) = None"
    by (simp add: synthetic_name_def)
  have len: "length (should_trace_cache ?s2) \<le> lru_maxsize" by (simp add: lru_maxsize_def)
  have "take lru_maxsize (?E @ should_trace_cache ?s2) = ?E" by (simp add: lru_maxsize_def)
  with run_synthetic_signals[OF pre len]
  have fin: "run ?s2 (synthetic_signals 128) = Inr (?s2\<lparr>should_trace_cache := ?E\<rparr>)"
    by simp
  from two fin have all: "run ?s0 ?evs = Inr (?s2\<lparr>should_trace_cache := ?E\<rparr>)" by simp
  have "''prog.py'' \<notin> fst ` set ?E" by (auto simp: synthetic_name_def)
  then have none: "map_of ?E ''prog.py'' = None" by (simp add: map_of_eq_None_iff)
  have body: "should_trace_body (program_path ?s0) ''/tmp'' ''prog.py'' = Inr False"
    by (simp add: should_trace_body_def init_def path_defs)
  have last: "fst (should_trace (?s2\<lparr>should_trace_cache := ?E\<rparr>) ''prog.py'') = Inr False"
    using none body by (simp add: should_trace_def)
  have dropped: "step (?s2\<lparr>should_trace_cache := ?E\<rparr>) (MallocSignal (Frame ''prog.py'' 2 None))
        = Inr (?s2\<lparr>should_trace_cache := take lru_maxsize ((''prog.py'', False) # ?E)\<rparr>)"
    using none body by (simp add: Let_def malloc_signal_handler_def should_trace_def)
  have more: "run ?s0 (?evs @ [MallocSignal (Frame ''prog.py'' 2 None)])
        = Inr (?s2\<lparr>should_trace_cache := take lru_maxsize ((''prog.py'', False) # ?E)\<rparr>)"
    unfolding run_append all using dropped by simp
  have m1: "\<not> isl (run ?s0 (?evs @ [MallocSignal (Frame ''prog.py'' 2 None)]))"
    unfolding more by simp
  have m2: "memory_malloc_samples
              (projr (run ?s0 (?evs @ [MallocSignal (Frame ''prog.py'' 2 None)])))
            = [(''prog.py'', [(1, 1)])]"
    unfolding more by simp
  have a1: "\<not> isl (run ?s0 ?evs)" unfolding all by simp
  have a2: "fst (should_trace (projr (run ?s0 ?evs)) ''prog.py'') = Inr False"
    unfolding all using last by simp
  from first a1 a2 m1 m2 show ?thesis by (intro conjI)
qed

section \<open>A skipped CPU sample\<close>

text \<open>
  Claim C7. When the file name the CPU handler resolves for the frame fails the filter,
  the handler returns, leaves the four sample tables and the three totals unchanged,
  stores the current process time as \<open>last_signal_time\<close>, and draws a fresh interval
  between half and one and a half times the mean, with which it rearms the timer.
  (\<open>u\<close> is the value of \<open>random()\<close>, which lies in \<open>[0, 1)\<close>.)
\<close>

theorem cpu_signal_handler_skip:
  assumes "frame_fname frame = Inr fname"
    and "fst (should_trace s fname) = Inr False"
    and "0 \<le> u" and "u < 1"
  shows "case cpu_signal_handler s frame now u now' of
           Inl e \<Rightarrow> False
         | Inr s' \<Rightarrow>
             cpu_samples_python s' = cpu_samples_python s
             \<and> cpu_samples_c s' = cpu_samples_c s
             \<and> memory_free_samples s' = memory_free_samples s
             \<and> memory_malloc_samples s' = memory_malloc_samples s
             \<and> total_cpu_samples s' = total_cpu_samples s
             \<and> total_memory_free_samples s' = total_memory_free_samples s
             \<and> total_memory_malloc_samples s' = total_memory_malloc_samples s
             \<and> last_signal_time s' = now'
             \<and> last_signal_interval s'
                 = uniform (mean_signal_interval / 2) (mean_signal_interval * 3 / 2) u
             \<and> mean_signal_interval / 2 \<le> last_signal_interval s'
             \<and> last_signal_interval s' \<le> mean_signal_interval * 3 / 2
             \<and> itimer s' = (last_signal_interval s', last_signal_interval s')"
proof -
  obtain r s1 where st: "should_trace s fname = (r, s1)" by (cases "should_trace s fname")
  with assms(2) have r: "r = Inr False" by simp
  from should_trace_cache_only[OF st] obtain c where s1: "s1 = s\<lparr>should_trace_cache := c\<rparr>"
    by blast
  let ?i = "uniform (mean_signal_interval / 2) (mean_signal_interval * 3 / 2) u"
  note b = next_interval_bounds[OF assms(3,4)]
  have "cpu_signal_handler s frame now u now'
        = Inr (s\<lparr>should_trace_cache := c, last_signal_time := now',
                  last_signal_interval := ?i, itimer := (?i, ?i)\<rparr>)"
    using assms(1) st r s1 b(3)
    by (simp add: cpu_signal_handler_def Let_def setitimer_def)
  then show ?thesis using b(1,2) by simp
qed

theorem cpu_signal_handler_skip_witness:
  "frame_fname (Frame ''/usr/lib/python3/os.py'' 40 None) = Inr ''/usr/lib/python3/os.py''
   \<and> fst (should_trace (init ''/home/user/app/prog.py'' ''/home/user/app'' 0)
            ''/usr/lib/python3/os.py'') = Inr False
   \<and> (0::real) \<le> 1 / 4 \<and> (1::real) / 4 < 1
   \<and> cpu_signal_handler (init ''/home/user/app/prog.py'' ''/home/user/app'' 0)
        (Frame ''/usr/lib/python3/os.py'' 40 None) (3 / 100) (1 / 4) (4 / 100)
       = Inr ((init ''/home/user/app/prog.py'' ''/home/user/app'' 0)
           \<lparr>last_signal_interval := 3 / 400,
            last_signal_time := 4 / 100,
            should_trace_cache := [(''/usr/lib/python3/os.py'', False)],
            itimer := (3 / 400, 3 / 400)\<rparr>)"
proof -
  have a: "frame_fname (Frame ''/usr/lib/python3/os.py'' 40 None) = Inr ''/usr/lib/python3/os.py''"
    by (simp add: frame_fname_def)
  have b: "fst (should_trace (init ''/home/user/app/prog.py'' ''/home/user/app'' 0)
            ''/usr/lib/python3/os.py'') = Inr False"
    by (simp add: should_trace_def should_trace_body_def init_def path_defs)
  have c: "(0::real) \<le> 1 / 4" and d: "(1::real) / 4 < 1" by simp_all
  have e: "cpu_signal_handler (init ''/home/user/app/prog.py'' ''/home/user/app'' 0)
        (Frame ''/usr/lib/python3/os.py'' 40 None) (3 / 100) (1 / 4) (4 / 100)
       = Inr ((init ''/home/user/app/prog.py'' ''/home/user/app'' 0)
           \<lparr>last_signal_interval := 3 / 400,
            last_signal_time := 4 / 100,
            should_trace_cache := [(''/usr/lib/python3/os.py'', False)],
            itimer := (3 / 400, 3 / 400)\<rparr>)"
    using cpu_signal_handler_skip[OF a b c d, of "3 / 100" "4 / 100"]
    by (simp add: cpu_signal_handler_def frame_fname_def should_trace_def should_trace_body_def
      init_def path_defs setitimer_def uniform_def mean_signal_interval_def lru_maxsize_def)
  from a b c d e show ?thesis by blast
qed

section \<open>The range of the sampling interval\<close>

lemma step_interval:
  assumes "step s e = Inr s'" and "random_ok e"
    and "mean_signal_interval / 2 \<le> last_signal_interval s
         \<and> last_signal_interval s \<le> mean_signal_interval * 3 / 2"
  shows "mean_signal_interval / 2 \<le> last_signal_interval s'
         \<and> last_signal_interval s' \<le> mean_signal_interval * 3 / 2"
proof (cases e)
  case (CpuSignal frame now u now')
  with assms(2) have u: "0 \<le> u" "u < 1" by simp_all
  from assms(1) CpuSignal have h: "cpu_signal_handler s frame now u now' = Inr s'" by simp
  from h show ?thesis
    by (cases rule: cpu_signal_handler_Inr) (use next_interval_bounds[OF u] in simp_all)
next
  case (MallocSignal frame)
  with assms(1) have "malloc_signal_handler s frame = Inr s'" by simp
  then show ?thesis using assms(3) by (cases rule: malloc_signal_handler_Inr) simp_all
next
  case (FreeSignal frame)
  with assms(1) have "free_signal_handler s frame = Inr s'" by simp
  then show ?thesis using assms(3) by (cases rule: free_signal_handler_Inr) simp_all
qed (use assms in \<open>auto simp: start_def stop_def exit_handler_def disable_signals_def\<close>)

text \<open>
  Claim C8. In every state the profiler reaches from \<open>__init__\<close>, whether a CPU sample
  was attributed or skipped, \<open>last_signal_interval\<close> lies between half the mean
  interval and one and a half times the mean interval.
\<close>

theorem last_signal_interval_in_range:
  assumes "run (init prog cwd0 t0) evs = Inr s" and "list_all random_ok evs"
  shows "mean_signal_interval / 2 \<le> last_signal_interval s
         \<and> last_signal_interval s \<le> mean_signal_interval * 3 / 2"
proof (rule run_invariant[OF assms(1)])
  show "mean_signal_interval / 2 \<le> last_signal_interval (init prog cwd0 t0)
         \<and> last_signal_interval (init prog cwd0 t0) \<le> mean_signal_interval * 3 / 2"
    by (simp add: init_def mean_signal_interval_def)
next
  fix t e t'
  assume "e \<in> set evs"
    and inv: "mean_signal_interval / 2 \<le> last_signal_interval t
         \<and> last_signal_interval t \<le> mean_signal_interval * 3 / 2"
    and st: "step t e = Inr t'"
  then have "random_ok e" using assms(2) by (simp add: list_all_iff)
  from step_interval[OF st this inv]
  show "mean_signal_interval / 2 \<le> last_signal_interval t'
         \<and> last_signal_interval t' \<le> mean_signal_interval * 3 / 2" .
qed

theorem last_signal_interval_in_range_witness:
  "run (init ''/home/user/app/prog.py'' ''/home/user/app'' 0)
     [CpuSignal (Frame ''/home/user/app/prog.py'' 3 None) (2 / 100) (9 / 10) (2 / 100),
      CpuSignal (Frame ''/usr/lib/python3/os.py'' 40 None) (5 / 100) (0) (5 / 100)]
   = Inr ((init ''/home/user/app/prog.py'' ''/home/user/app'' 0)
       \<lparr>cpu_samples_python := [(''/home/user/app/prog.py'', [(3, 1)])],
        cpu_samples_c := [(''/home/user/app/prog.py'', [(3, 1)])],
        total_cpu_samples := 2,
        last_signal_interval := 1 / 200,
        last_signal_time := 5 / 100,
        should_trace_cache :=
          [(''/usr/lib/python3/os.py'', False), (''/home/user/app/prog.py'', True)],
        itimer := (1 / 200, 1 / 200)\<rparr>)
   \<and> list_all random_ok
     [CpuSignal (Frame ''/home/user/app/prog.py'' 3 None) (2 / 100) (9 / 10) (2 / 100),
      CpuSignal (Frame ''/usr/lib/python3/os.py'' 40 None) (5 / 100) (0) (5 / 100)]
   \<and> mean_signal_interval / 2 \<le> (1::real) / 200
   \<and> (1::real) / 200 \<le> mean_signal_interval * 3 / 2"
proof -
  let ?evs = "[CpuSignal (Frame ''/home/user/app/prog.py'' 3 None) (2 / 100) (9 / 10) (2 / 100),
      CpuSignal (Frame ''/usr/lib/python3/os.py'' 40 None) (5 / 100) (0) (5 / 100)]"
  let ?s = "(init ''/home/user/app/prog.py'' ''/home/user/app'' 0)
       \<lparr>cpu_samples_python := [(''/home/user/app/prog.py'', [(3, 1)])],
        cpu_samples_c := [(''/home/user/app/prog.py'', [(3, 1)])],
        total_cpu_samples := 2,
        last_signal_interval := 1 / 200,
        last_signal_time := 5 / 100,
        should_trace_cache :=
          [(''/usr/lib/python3/os.py'', False), (''/home/user/app/prog.py'', True)],
        itimer := (1 / 200, 1 / 200)\<rparr>"
  have a: "run (init ''/home/user/app/prog.py'' ''/home/user/app'' 0) ?evs = Inr ?s"
    by (simp add: cpu_signal_handler_def frame_fname_def should_trace_def should_trace_body_def
      init_def path_defs setitimer_def uniform_def mean_signal_interval_def lru_maxsize_def)
  have b: "list_all random_ok ?evs" by simp
  from last_signal_interval_in_range[OF a b] a b show ?thesis by simp
qed


section \<open>What the cache holds\<close>

lemma should_trace_Inr:
  assumes "should_trace s f = (Inr b, s')"
  shows "(f, b) \<in> set (should_trace_cache s)
         \<or> should_trace_body (program_path s) (cwd s) f = Inr b"
    and "set (should_trace_cache s') \<subseteq> insert (f, b) (set (should_trace_cache s))"
proof -
  show "(f, b) \<in> set (should_trace_cache s)
         \<or> should_trace_body (program_path s) (cwd s) f = Inr b"
    using assms
    by (auto simp: should_trace_def split: option.splits sum.splits dest: map_of_SomeD)
  show "set (should_trace_cache s') \<subseteq> insert (f, b) (set (should_trace_cache s))"
  proof (cases "map_of (should_trace_cache s) f")
    case None
    with assms have "should_trace_cache s'
                     = take lru_maxsize ((f, b) # should_trace_cache s)"
      by (auto simp: should_trace_def split: sum.splits)
    then show ?thesis
      using set_take_subset[of lru_maxsize "(f, b) # should_trace_cache s"] by simp
  next
    case (Some b')
    with assms show ?thesis by (auto simp: should_trace_def)
  qed
qed

lemma should_trace_fst:
  "fst (should_trace s f)
   = (case map_of (should_trace_cache s) f of
        Some b \<Rightarrow> Inr b
      | None \<Rightarrow> should_trace_body (program_path s) (cwd s) f)"
  by (simp add: should_trace_def split: option.splits sum.splits)

text \<open>
  Every step keeps \<open>program_path\<close>, keeps the working directory unless it is a
  \<open>Chdir\<close>, and adds to the cache only results of the body under the current working
  directory; it adds to the tables only files the filter has accepted.
\<close>

lemma step_cache:
  assumes "step s e = Inr s'"
  shows "program_path s' = program_path s"
    and "\<not> is_chdir e \<Longrightarrow> cwd s' = cwd s"
    and "\<forall>(f, b) \<in> set (should_trace_cache s').
           (f, b) \<in> set (should_trace_cache s)
           \<or> (\<not> is_chdir e \<and> should_trace_body (program_path s) (cwd s) f = Inr b)"
proof -
  have "program_path s' = program_path s
    \<and> (\<not> is_chdir e \<longrightarrow> cwd s' = cwd s)
    \<and> (\<forall>(f, b) \<in> set (should_trace_cache s').
           (f, b) \<in> set (should_trace_cache s)
           \<or> (\<not> is_chdir e \<and> should_trace_body (program_path s) (cwd s) f = Inr b))"
  proof (cases e)
    case (CpuSignal frame now u now')
    with assms have "cpu_signal_handler s frame now u now' = Inr s'" by simp
    then show ?thesis
    proof (cases rule: cpu_signal_handler_Inr)
      case (skipped fname c)
      from should_trace_Inr[OF skipped(2)] skipped(3) CpuSignal show ?thesis by auto
    next
      case (attributed fname c)
      from should_trace_Inr[OF attributed(2)] attributed(4) CpuSignal show ?thesis by auto
    qed
  next
    case (MallocSignal frame)
    with assms have "malloc_signal_handler s frame = Inr s'" by simp
    then show ?thesis
    proof (cases rule: malloc_signal_handler_Inr)
      case (skipped c)
      from should_trace_Inr[OF skipped(1)] skipped(2) MallocSignal show ?thesis by auto
    next
      case (attributed c)
      from should_trace_Inr[OF attributed(1)] attributed(2) MallocSignal show ?thesis by auto
    qed
  next
    case (FreeSignal frame)
    with assms have "free_signal_handler s frame = Inr s'" by simp
    then show ?thesis
    proof (cases rule: free_signal_handler_Inr)
      case (skipped c)
      from should_trace_Inr[OF skipped(1)] skipped(2) FreeSignal show ?thesis by auto
    next
      case (attributed c)
      from should_trace_Inr[OF attributed(1)] attributed(2) FreeSignal show ?thesis by auto
    qed
  qed (use assms in \<open>auto simp: start_def stop_def exit_handler_def disable_signals_def\<close>)
  then show "program_path s' = program_path s"
    and "\<not> is_chdir e \<Longrightarrow> cwd s' = cwd s"
    and "\<forall>(f, b) \<in> set (should_trace_cache s').
           (f, b) \<in> set (should_trace_cache s)
           \<or> (\<not> is_chdir e \<and> should_trace_body (program_path s) (cwd s) f = Inr b)"
    by blast+
qed

section \<open>Files named like the profiler\<close>

lemma should_trace_body_scalene:
  assumes "str_contains ''scalene.py'' filename"
  shows "should_trace_body pp d filename = Inr False"
proof (cases filename)
  case Nil
  with assms show ?thesis by simp
next
  case (Cons c cs)
  with assms show ?thesis by (simp add: should_trace_body_def)
qed

lemma table_add_keys: "fst ` set (table_add f l v t) = insert f (fst ` set t)"
proof (induction t)
  case Nil
  show ?case by simp
next
  case (Cons a t)
  obtain g d where a: "a = (g, d)" by (cases a)
  show ?case using Cons.IH a by (cases "g = f") auto
qed

text \<open>A step adds to the tables only files the filter has just accepted.\<close>

lemma step_keys:
  assumes "step s e = Inr s'"
  shows "fst ` set (cpu_samples_python s')
           \<subseteq> fst ` set (cpu_samples_python s) \<union> {f. \<exists>t. should_trace s f = (Inr True, t)}"
    and "fst ` set (cpu_samples_c s')
           \<subseteq> fst ` set (cpu_samples_c s) \<union> {f. \<exists>t. should_trace s f = (Inr True, t)}"
    and "fst ` set (memory_free_samples s')
           \<subseteq> fst ` set (memory_free_samples s) \<union> {f. \<exists>t. should_trace s f = (Inr True, t)}"
    and "fst ` set (memory_malloc_samples s')
           \<subseteq> fst ` set (memory_malloc_samples s) \<union> {f. \<exists>t. should_trace s f = (Inr True, t)}"
proof -
  let ?A = "{f. \<exists>t. should_trace s f = (Inr True, t)}"
  have "fst ` set (cpu_samples_python s') \<subseteq> fst ` set (cpu_samples_python s) \<union> ?A
      \<and> fst ` set (cpu_samples_c s') \<subseteq> fst ` set (cpu_samples_c s) \<union> ?A
      \<and> fst ` set (memory_free_samples s') \<subseteq> fst ` set (memory_free_samples s) \<union> ?A
      \<and> fst ` set (memory_malloc_samples s') \<subseteq> fst ` set (memory_malloc_samples s) \<union> ?A"
  proof (cases e)
    case (CpuSignal frame now u now')
    with assms have "cpu_signal_handler s frame now u now' = Inr s'" by simp
    then show ?thesis
    proof (cases rule: cpu_signal_handler_Inr)
      case (skipped fname c)
      then show ?thesis by simp
    next
      case (attributed fname c)
      from attributed(2) have "fname \<in> ?A" by blast
      with attributed(4) show ?thesis by (simp add: table_add_keys subset_insertI2)
    qed
  next
    case (MallocSignal frame)
    with assms have "malloc_signal_handler s frame = Inr s'" by simp
    then show ?thesis
    proof (cases rule: malloc_signal_handler_Inr)
      case (skipped c)
      then show ?thesis by simp
    next
      case (attributed c)
      from attributed(1) have "co_filename frame \<in> ?A" by blast
      with attributed(2) show ?thesis by (simp add: table_add_keys subset_insertI2)
    qed
  next
    case (FreeSignal frame)
    with assms have "free_signal_handler s frame = Inr s'" by simp
    then show ?thesis
    proof (cases rule: free_signal_handler_Inr)
      case (skipped c)
      then show ?thesis by simp
    next
      case (attributed c)
      from attributed(1) have "co_filename frame \<in> ?A" by blast
      with attributed(2) show ?thesis by (simp add: table_add_keys subset_insertI2)
    qed
  next
    case (Start t)
    with assms have "s' = start s t" by simp
    then show ?thesis by (simp add: start_def)
  next
    case (Stop t)
    with assms have "s' = stop s t" by simp
    then show ?thesis by (simp add: stop_def disable_signals_def Let_def)
  next
    case AtExit
    with assms have "s' = exit_handler s" by simp
    then show ?thesis by (simp add: exit_handler_def disable_signals_def)
  next
    case (Chdir d)
    with assms have "s' = s\<lparr>cwd := d\<rparr>" by simp
    then show ?thesis by simp
  qed
  then show "fst ` set (cpu_samples_python s') \<subseteq> fst ` set (cpu_samples_python s) \<union> ?A"
    and "fst ` set (cpu_samples_c s') \<subseteq> fst ` set (cpu_samples_c s) \<union> ?A"
    and "fst ` set (memory_free_samples s') \<subseteq> fst ` set (memory_free_samples s) \<union> ?A"
    and "fst ` set (memory_malloc_samples s') \<subseteq> fst ` set (memory_malloc_samples s) \<union> ?A"
    by simp_all
qed

text \<open>Names the body of the filter always rejects are never cached as accepted.\<close>

lemma accepted_not_rejected:
  assumes rej: "\<And>pp d. should_trace_body pp d f = Inr False"
    and "(f, True) \<notin> set (should_trace_cache s)"
    and "should_trace s f = (Inr True, t)"
  shows False
proof -
  from should_trace_Inr(1)[OF assms(3)]
  show False
  proof
    assume "(f, True) \<in> set (should_trace_cache s)"
    with assms(2) show False by simp
  next
    assume "should_trace_body (program_path s) (cwd s) f = Inr True"
    with rej[of "program_path s" "cwd s"] show False by simp
  qed
qed

lemma step_rejected_cache:
  assumes "step s e = Inr s'"
    and rej: "\<And>pp d. should_trace_body pp d f = Inr False"
    and "(f, True) \<notin> set (should_trace_cache s)"
  shows "(f, True) \<notin> set (should_trace_cache s')"
proof
  assume fb: "(f, True) \<in> set (should_trace_cache s')"
  from step_cache(3)[OF assms(1)] fb
  have "(f, True) \<in> set (should_trace_cache s)
         \<or> should_trace_body (program_path s) (cwd s) f = Inr True" by blast
  then show False
  proof
    assume "(f, True) \<in> set (should_trace_cache s)"
    with assms(3) show False by simp
  next
    assume "should_trace_body (program_path s) (cwd s) f = Inr True"
    with rej[of "program_path s" "cwd s"] show False by simp
  qed
qed

lemma keys_rejected:
  assumes "K' \<subseteq> K \<union> {g. \<exists>t. should_trace s g = (Inr True, t)}"
    and "f \<notin> K"
    and rej: "\<And>pp d. should_trace_body pp d f = Inr False"
    and "(f, True) \<notin> set (should_trace_cache s)"
  shows "f \<notin> K'"
proof
  assume "f \<in> K'"
  with assms(1,2) have "\<exists>t. should_trace s f = (Inr True, t)" by blast
  then obtain t where "should_trace s f = (Inr True, t)" ..
  from accepted_not_rejected[OF rej assms(4) this] show False .
qed

lemma step_rejected:
  assumes "step s e = Inr s'"
    and rej: "\<And>pp d. should_trace_body pp d f = Inr False"
    and "(f, True) \<notin> set (should_trace_cache s)
         \<and> f \<notin> fst ` set (cpu_samples_python s)
         \<and> f \<notin> fst ` set (cpu_samples_c s)
         \<and> f \<notin> fst ` set (memory_free_samples s)
         \<and> f \<notin> fst ` set (memory_malloc_samples s)"
  shows "(f, True) \<notin> set (should_trace_cache s')
         \<and> f \<notin> fst ` set (cpu_samples_python s')
         \<and> f \<notin> fst ` set (cpu_samples_c s')
         \<and> f \<notin> fst ` set (memory_free_samples s')
         \<and> f \<notin> fst ` set (memory_malloc_samples s')"
proof -
  from assms(3)
  have c: "(f, True) \<notin> set (should_trace_cache s)"
    and k1: "f \<notin> fst ` set (cpu_samples_python s)"
    and k2: "f \<notin> fst ` set (cpu_samples_c s)"
    and k3: "f \<notin> fst ` set (memory_free_samples s)"
    and k4: "f \<notin> fst ` set (memory_malloc_samples s)"
    by simp_all
  note step_rejected_cache[OF assms(1) rej c]
    keys_rejected[OF step_keys(1)[OF assms(1)] k1 rej c]
    keys_rejected[OF step_keys(2)[OF assms(1)] k2 rej c]
    keys_rejected[OF step_keys(3)[OF assms(1)] k3 rej c]
    keys_rejected[OF step_keys(4)[OF assms(1)] k4 rej c]
  then show ?thesis by (intro conjI)
qed

lemma run_rejected:
  assumes "run (init prog cwd0 t0) evs = Inr s"
    and rej: "\<And>pp d. should_trace_body pp d f = Inr False"
  shows "(f, True) \<notin> set (should_trace_cache s)
         \<and> f \<notin> fst ` set (cpu_samples_python s)
         \<and> f \<notin> fst ` set (cpu_samples_c s)
         \<and> f \<notin> fst ` set (memory_free_samples s)
         \<and> f \<notin> fst ` set (memory_malloc_samples s)"
proof (rule run_invariant[OF assms(1)])
  show "(f, True) \<notin> set (should_trace_cache (init prog cwd0 t0))
         \<and> f \<notin> fst ` set (cpu_samples_python (init prog cwd0 t0))
         \<and> f \<notin> fst ` set (cpu_samples_c (init prog cwd0 t0))
         \<and> f \<notin> fst ` set (memory_free_samples (init prog cwd0 t0))
         \<and> f \<notin> fst ` set (memory_malloc_samples (init prog cwd0 t0))"
    by (simp add: init_def)
next
  fix t e t'
  assume "e \<in> set evs"
    and i: "(f, True) \<notin> set (should_trace_cache t)
         \<and> f \<notin> fst ` set (cpu_samples_python t)
         \<and> f \<notin> fst ` set (cpu_samples_c t)
         \<and> f \<notin> fst ` set (memory_free_samples t)
         \<and> f \<notin> fst ` set (memory_malloc_samples t)"
    and st: "step t e = Inr t'"
  from step_rejected[OF st rej i]
  show "(f, True) \<notin> set (should_trace_cache t')
         \<and> f \<notin> fst ` set (cpu_samples_python t')
         \<and> f \<notin> fst ` set (cpu_samples_c t')
         \<and> f \<notin> fst ` set (memory_free_samples t')
         \<and> f \<notin> fst ` set (memory_malloc_samples t')" .
qed

text \<open>
  Claim C10. In every state the profiler reaches from \<open>__init__\<close>, the filter returns
  false for every file name that contains \<open>scalene.py\<close>, wherever the file lies (a
  user's \<open>myscalene.py\<close> inside the program's directory included), and no sample table
  has an entry for such a file.
\<close>

theorem scalene_py_never_traced:
  assumes "run (init prog cwd0 t0) evs = Inr s"
    and "str_contains ''scalene.py'' filename"
  shows "fst (should_trace s filename) = Inr False
         \<and> filename \<notin> fst ` set (cpu_samples_python s)
         \<and> filename \<notin> fst ` set (cpu_samples_c s)
         \<and> filename \<notin> fst ` set (memory_free_samples s)
         \<and> filename \<notin> fst ` set (memory_malloc_samples s)"
proof -
  have rej: "should_trace_body pp d filename = Inr False" for pp d
    using should_trace_body_scalene[OF assms(2)] .
  note inv = run_rejected[OF assms(1) rej]
  have "fst (should_trace s filename) = Inr False"
  proof (cases "map_of (should_trace_cache s) filename")
    case None
    with rej[of "program_path s" "cwd s"] show ?thesis by (simp add: should_trace_fst)
  next
    case (Some b)
    then have "(filename, b) \<in> set (should_trace_cache s)" by (rule map_of_SomeD)
    with inv have "\<not> b" by (cases b) simp_all
    with Some show ?thesis by (simp add: should_trace_fst)
  qed
  with inv show ?thesis by (intro conjI) simp_all
qed

theorem scalene_py_never_traced_witness:
  "run (init ''/home/user/app/prog.py'' ''/home/user/app'' 0)
     [MallocSignal (Frame ''/home/user/app/myscalene.py'' 7 None),
      CpuSignal (Frame ''/home/user/app/myscalene.py'' 8 None) (3 / 100) (1 / 2) (3 / 100)]
   = Inr ((init ''/home/user/app/prog.py'' ''/home/user/app'' 0)
       \<lparr>last_signal_time := 3 / 100,
        should_trace_cache := [(''/home/user/app/myscalene.py'', False)]\<rparr>)
   \<and> str_contains ''scalene.py'' ''/home/user/app/myscalene.py''
   \<and> spec_contained_in ''/home/user/app''
        (abspath ''/home/user/app'' ''/home/user/app/myscalene.py'')
   \<and> fst (should_trace ((init ''/home/user/app/prog.py'' ''/home/user/app'' 0)
       \<lparr>last_signal_time := 3 / 100,
        should_trace_cache := [(''/home/user/app/myscalene.py'', False)]\<rparr>)
        ''/home/user/app/myscalene.py'') = Inr False"
proof -
  let ?evs = "[MallocSignal (Frame ''/home/user/app/myscalene.py'' 7 None),
      CpuSignal (Frame ''/home/user/app/myscalene.py'' 8 None) (3 / 100) (1 / 2) (3 / 100)]"
  let ?s = "(init ''/home/user/app/prog.py'' ''/home/user/app'' 0)
       \<lparr>last_signal_time := 3 / 100,
        should_trace_cache := [(''/home/user/app/myscalene.py'', False)]\<rparr>"
  have a: "run (init ''/home/user/app/prog.py'' ''/home/user/app'' 0) ?evs = Inr ?s"
    by (simp add: Let_def malloc_signal_handler_def cpu_signal_handler_def frame_fname_def
        should_trace_def should_trace_body_def init_def setitimer_def uniform_def
        mean_signal_interval_def lru_maxsize_def)
  have b: "str_contains ''scalene.py'' ''/home/user/app/myscalene.py''" by simp
  have c: "spec_contained_in ''/home/user/app''
             (abspath ''/home/user/app'' ''/home/user/app/myscalene.py'')"
    by (simp add: spec_contained_in_def path_defs)
  have d: "fst (should_trace ?s ''/home/user/app/myscalene.py'') = Inr False"
    using scalene_py_never_traced[OF a b] by (rule conjunct1)
  from a b c d show ?thesis by (intro conjI)
qed

end
